theory Spec2Isabelle
  imports Main "HOL-Library.AList"
begin

section \<open>Values, exceptions and collaborating objects\<close>

text \<open>
  The module \<^verbatim>\<open>aiohttp/tracing.py\<close> is embedded function by function. Python objects
  that the module only passes along (the session, a response) are references; the
  context type is the type parameter \<open>'c\<close>, as \<^verbatim>\<open>TraceConfig\<close> is \<^verbatim>\<open>Generic[_T]\<close>.
  Everything a listener or a context factory may read or change is the world \<open>'w\<close>,
  which is passed in and returned: an \<^verbatim>\<open>await\<close> of a coroutine is its run to completion
  on the world it is given, so one logical task is a sequence of world transformers.
  A raised exception is the \<open>Inl\<close> of a sum; the world a raising callee leaves behind
  is kept, as Python keeps the mutations made before the raise.
\<close>

datatype pyval = PyNone | PyInt int | PyStr string | PyRef nat

datatype exn = ConfigurationError | TypeError string | ValueError string | OtherError string

datatype ClientSession = ClientSession_ref nat

datatype ClientResponse = ClientResponse_ref nat

type_synonym URL = string

type_synonym CIMultiDict = "(string \<times> string) list"

type_synonym bytes = "char list"

type_synonym kwargs = "(string \<times> pyval) list"

section \<open>Event payloads\<close>

text \<open>
  The sixteen frozen dataclasses, one constructor each, with the fields in the order
  of the class bodies (which is the order of the positional constructor arguments).
  The five connection payloads have no field. The decorator of the classes comes from
  \<^verbatim>\<open>helpers.py\<close>, which is not part of the source tree; by the specification the
  payloads are immutable value objects with field access only, which is what a value of
  a datatype is. A selector applied to a payload without that field has no specified
  value (Python raises AttributeError); no statement below reads such a field.
\<close>

datatype params =
    TraceRequestStartParams (method': string) (url: URL) (headers: CIMultiDict)
  | TraceRequestChunkSentParams (method': string) (url: URL) (chunk: bytes)
  | TraceResponseChunkReceivedParams (method': string) (url: URL) (chunk: bytes)
  | TraceRequestEndParams (method': string) (url: URL) (headers: CIMultiDict)
      (response: ClientResponse)
  | TraceRequestExceptionParams (method': string) (url: URL) (headers: CIMultiDict)
      (exception: exn)
  | TraceRequestRedirectParams (method': string) (url: URL) (headers: CIMultiDict)
      (response: ClientResponse)
  | TraceConnectionQueuedStartParams
  | TraceConnectionQueuedEndParams
  | TraceConnectionCreateStartParams
  | TraceConnectionCreateEndParams
  | TraceConnectionReuseconnParams
  | TraceDnsResolveHostStartParams (host: string)
  | TraceDnsResolveHostEndParams (host: string)
  | TraceDnsCacheHitParams (host: string)
  | TraceDnsCacheMissParams (host: string)
  | TraceRequestHeadersSentParams (method': string) (url: URL) (headers: CIMultiDict)

section \<open>Signal\<close>

type_synonym ('c, 'w) listener =
  "ClientSession \<Rightarrow> 'c \<Rightarrow> params \<Rightarrow> 'w \<Rightarrow> (exn + unit) \<times> 'w"

text \<open>
  Modelled from the spec: the class \<^verbatim>\<open>Signal\<close> is imported from the package
  \<^verbatim>\<open>aiosignal\<close> and its code is not part of the source tree. The record and the four
  operations below follow sections 3 and 4.1 of the specification: an ordered sequence
  of listeners and a flag \<open>frozen\<close>; \<open>append\<close> adds at the end and fails with
  ConfigurationError once frozen; \<open>freeze\<close> sets the flag (the specification leaves a
  repeated freeze to the implementation, no-op or failure, and forbids un-freezing; the
  model takes the no-op); \<open>send\<close> fails with ConfigurationError unless frozen and
  otherwise calls every listener in sequence order, each on the world the previous one
  left, stopping at the first one that raises and handing its exception on.
  The constructor argument (the owning TraceConfig) plays no part in any operation and
  is left out.
\<close>

record ('c, 'w) Signal =
  listeners :: "('c, 'w) listener list"
  frozen :: bool

text \<open>Modelled from the spec: a signal is created open and without listeners.\<close>

definition Signal_new :: "('c, 'w) Signal" where
  "Signal_new = \<lparr>listeners = [], frozen = False\<rparr>"

text \<open>
  Modelled from the spec: \<open>append\<close> adds the listener at the end of the sequence and
  fails with ConfigurationError when the signal is already frozen.
\<close>

definition Signal_append ::
  "('c, 'w) listener \<Rightarrow> ('c, 'w) Signal \<Rightarrow> exn + ('c, 'w) Signal" where
  "Signal_append l s =
     (if frozen s then Inl ConfigurationError
      else Inr (s\<lparr>listeners := listeners s @ [l]\<rparr>))"

text \<open>
  Modelled from the spec: \<open>freeze\<close> moves the signal to the frozen state and never
  un-freezes; on a frozen signal it changes nothing.
\<close>

definition Signal_freeze :: "('c, 'w) Signal \<Rightarrow> ('c, 'w) Signal" where
  "Signal_freeze s = s\<lparr>frozen := True\<rparr>"

text \<open>
  Modelled from the spec: the loop of \<open>send\<close>, every listener in registration order,
  each awaited before the next is called; the first exception ends the loop and is the
  result.
\<close>

fun run_listeners ::
  "('c, 'w) listener list \<Rightarrow> ClientSession \<Rightarrow> 'c \<Rightarrow> params \<Rightarrow> 'w \<Rightarrow> (exn + unit) \<times> 'w" where
  "run_listeners [] owner ctx p w = (Inr (), w)"
| "run_listeners (l # ls) owner ctx p w =
     (case l owner ctx p w of
        (Inl e, w') \<Rightarrow> (Inl e, w')
      | (Inr u, w') \<Rightarrow> run_listeners ls owner ctx p w')"

text \<open>
  Modelled from the spec: \<open>send\<close> requires a frozen signal and fails with
  ConfigurationError otherwise, before any listener is called.
\<close>

definition Signal_send ::
  "('c, 'w) Signal \<Rightarrow> ClientSession \<Rightarrow> 'c \<Rightarrow> params \<Rightarrow> 'w \<Rightarrow> (exn + unit) \<times> 'w" where
  "Signal_send s owner ctx p w =
     (if \<not> frozen s then (Inl ConfigurationError, w)
      else run_listeners (listeners s) owner ctx p w)"

text \<open>Registration of a whole sequence: one \<open>append\<close> after the other, in order.\<close>

fun append_all ::
  "('c, 'w) listener list \<Rightarrow> ('c, 'w) Signal \<Rightarrow> exn + ('c, 'w) Signal" where
  "append_all [] s = Inr s"
| "append_all (l # ls) s =
     (case Signal_append l s of Inl e \<Rightarrow> Inl e | Inr s' \<Rightarrow> append_all ls s')"

section \<open>The object store of the default context factory\<close>

text \<open>
  \<^verbatim>\<open>types.SimpleNamespace(**kwargs)\<close> creates a new object whose attributes are exactly
  the keyword arguments. Objects live in a store, a list addressed by position, so a
  new object has an address no older object has; an object is the association list of
  its attributes.
\<close>

type_synonym namespace = "(string \<times> pyval) list"

type_synonym heap = "namespace list"

definition SimpleNamespace :: "kwargs \<Rightarrow> heap \<Rightarrow> (exn + nat) \<times> heap" where
  "SimpleNamespace kw h = (Inr (length h), h @ [kw])"

text \<open>
  Attribute access \<^verbatim>\<open>obj.name\<close> and assignment \<^verbatim>\<open>obj.name = v\<close> on a stored object; an
  unknown address or attribute is the \<open>None\<close> of the option (Python's AttributeError).
\<close>

definition getattr :: "heap \<Rightarrow> nat \<Rightarrow> string \<Rightarrow> pyval option" where
  "getattr h a name = (if a < length h then map_of (h ! a) name else None)"

definition setattr :: "heap \<Rightarrow> nat \<Rightarrow> string \<Rightarrow> pyval \<Rightarrow> heap" where
  "setattr h a name v =
     (if a < length h then h[a := AList.update name v (h ! a)] else h)"

section \<open>TraceConfig\<close>

type_synonym ('c, 'w) factory = "kwargs \<Rightarrow> 'w \<Rightarrow> (exn + 'c) \<times> 'w"

text \<open>
  The attribute \<^verbatim>\<open>self._x\<close> of the source is the field \<open>self_x\<close>. The sixteen signals
  are in the order of \<^verbatim>\<open>__init__\<close>.
\<close>

record ('c, 'w) TraceConfig =
  self_on_request_start :: "('c, 'w) Signal"
  self_on_request_chunk_sent :: "('c, 'w) Signal"
  self_on_response_chunk_received :: "('c, 'w) Signal"
  self_on_request_end :: "('c, 'w) Signal"
  self_on_request_exception :: "('c, 'w) Signal"
  self_on_request_redirect :: "('c, 'w) Signal"
  self_on_connection_queued_start :: "('c, 'w) Signal"
  self_on_connection_queued_end :: "('c, 'w) Signal"
  self_on_connection_create_start :: "('c, 'w) Signal"
  self_on_connection_create_end :: "('c, 'w) Signal"
  self_on_connection_reuseconn :: "('c, 'w) Signal"
  self_on_dns_resolvehost_start :: "('c, 'w) Signal"
  self_on_dns_resolvehost_end :: "('c, 'w) Signal"
  self_on_dns_cache_hit :: "('c, 'w) Signal"
  self_on_dns_cache_miss :: "('c, 'w) Signal"
  self_on_request_headers_sent :: "('c, 'w) Signal"
  self_trace_config_ctx_factory :: "('c, 'w) factory"

definition TraceConfig_init :: "('c, 'w) factory \<Rightarrow> ('c, 'w) TraceConfig" where
  "TraceConfig_init trace_config_ctx_factory =
     \<lparr>self_on_request_start = Signal_new,
      self_on_request_chunk_sent = Signal_new,
      self_on_response_chunk_received = Signal_new,
      self_on_request_end = Signal_new,
      self_on_request_exception = Signal_new,
      self_on_request_redirect = Signal_new,
      self_on_connection_queued_start = Signal_new,
      self_on_connection_queued_end = Signal_new,
      self_on_connection_create_start = Signal_new,
      self_on_connection_create_end = Signal_new,
      self_on_connection_reuseconn = Signal_new,
      self_on_dns_resolvehost_start = Signal_new,
      self_on_dns_resolvehost_end = Signal_new,
      self_on_dns_cache_hit = Signal_new,
      self_on_dns_cache_miss = Signal_new,
      self_on_request_headers_sent = Signal_new,
      self_trace_config_ctx_factory = trace_config_ctx_factory\<rparr>"

text \<open>The constructor called with no argument: the factory defaults to SimpleNamespace.\<close>

definition TraceConfig_init_default :: "(nat, heap) TraceConfig" where
  "TraceConfig_init_default = TraceConfig_init SimpleNamespace"

text \<open>
  \<^verbatim>\<open>trace_config_ctx(self, trace_request_ctx=None)\<close>: an omitted argument is \<open>None\<close> of
  the option and stands for Python's \<^verbatim>\<open>None\<close>; the factory is called with the single
  keyword \<^verbatim>\<open>trace_request_ctx\<close>.
\<close>

definition trace_config_ctx ::
  "('c, 'w) TraceConfig \<Rightarrow> pyval option \<Rightarrow> 'w \<Rightarrow> (exn + 'c) \<times> 'w" where
  "trace_config_ctx self trace_request_ctx w =
     (let v = (case trace_request_ctx of None \<Rightarrow> PyNone | Some x \<Rightarrow> x)
      in self_trace_config_ctx_factory self [(''trace_request_ctx'', v)] w)"

text \<open>\<^verbatim>\<open>freeze\<close>: sixteen calls of \<open>Signal.freeze\<close>, in the order of the source.\<close>

definition TraceConfig_freeze :: "('c, 'w) TraceConfig \<Rightarrow> ('c, 'w) TraceConfig" where
  "TraceConfig_freeze self =
     (let
        self = self\<lparr>self_on_request_start := Signal_freeze (self_on_request_start self)\<rparr>;
        self = self\<lparr>self_on_request_chunk_sent := Signal_freeze (self_on_request_chunk_sent self)\<rparr>;
        self = self\<lparr>self_on_response_chunk_received := Signal_freeze (self_on_response_chunk_received self)\<rparr>;
        self = self\<lparr>self_on_request_end := Signal_freeze (self_on_request_end self)\<rparr>;
        self = self\<lparr>self_on_request_exception := Signal_freeze (self_on_request_exception self)\<rparr>;
        self = self\<lparr>self_on_request_redirect := Signal_freeze (self_on_request_redirect self)\<rparr>;
        self = self\<lparr>self_on_connection_queued_start := Signal_freeze (self_on_connection_queued_start self)\<rparr>;
        self = self\<lparr>self_on_connection_queued_end := Signal_freeze (self_on_connection_queued_end self)\<rparr>;
        self = self\<lparr>self_on_connection_create_start := Signal_freeze (self_on_connection_create_start self)\<rparr>;
        self = self\<lparr>self_on_connection_create_end := Signal_freeze (self_on_connection_create_end self)\<rparr>;
        self = self\<lparr>self_on_connection_reuseconn := Signal_freeze (self_on_connection_reuseconn self)\<rparr>;
        self = self\<lparr>self_on_dns_resolvehost_start := Signal_freeze (self_on_dns_resolvehost_start self)\<rparr>;
        self = self\<lparr>self_on_dns_resolvehost_end := Signal_freeze (self_on_dns_resolvehost_end self)\<rparr>;
        self = self\<lparr>self_on_dns_cache_hit := Signal_freeze (self_on_dns_cache_hit self)\<rparr>;
        self = self\<lparr>self_on_dns_cache_miss := Signal_freeze (self_on_dns_cache_miss self)\<rparr>;
        self = self\<lparr>self_on_request_headers_sent := Signal_freeze (self_on_request_headers_sent self)\<rparr>
      in self)"

text \<open>The sixteen read-only properties.\<close>

definition on_request_start :: "('c, 'w) TraceConfig \<Rightarrow> ('c, 'w) Signal" where
  "on_request_start self = self_on_request_start self"

definition on_request_chunk_sent :: "('c, 'w) TraceConfig \<Rightarrow> ('c, 'w) Signal" where
  "on_request_chunk_sent self = self_on_request_chunk_sent self"

definition on_response_chunk_received :: "('c, 'w) TraceConfig \<Rightarrow> ('c, 'w) Signal" where
  "on_response_chunk_received self = self_on_response_chunk_received self"

definition on_request_end :: "('c, 'w) TraceConfig \<Rightarrow> ('c, 'w) Signal" where
  "on_request_end self = self_on_request_end self"

definition on_request_exception :: "('c, 'w) TraceConfig \<Rightarrow> ('c, 'w) Signal" where
  "on_request_exception self = self_on_request_exception self"

definition on_request_redirect :: "('c, 'w) TraceConfig \<Rightarrow> ('c, 'w) Signal" where
  "on_request_redirect self = self_on_request_redirect self"

definition on_connection_queued_start :: "('c, 'w) TraceConfig \<Rightarrow> ('c, 'w) Signal" where
  "on_connection_queued_start self = self_on_connection_queued_start self"

definition on_connection_queued_end :: "('c, 'w) TraceConfig \<Rightarrow> ('c, 'w) Signal" where
  "on_connection_queued_end self = self_on_connection_queued_end self"

definition on_connection_create_start :: "('c, 'w) TraceConfig \<Rightarrow> ('c, 'w) Signal" where
  "on_connection_create_start self = self_on_connection_create_start self"

definition on_connection_create_end :: "('c, 'w) TraceConfig \<Rightarrow> ('c, 'w) Signal" where
  "on_connection_create_end self = self_on_connection_create_end self"

definition on_connection_reuseconn :: "('c, 'w) TraceConfig \<Rightarrow> ('c, 'w) Signal" where
  "on_connection_reuseconn self = self_on_connection_reuseconn self"

definition on_dns_resolvehost_start :: "('c, 'w) TraceConfig \<Rightarrow> ('c, 'w) Signal" where
  "on_dns_resolvehost_start self = self_on_dns_resolvehost_start self"

definition on_dns_resolvehost_end :: "('c, 'w) TraceConfig \<Rightarrow> ('c, 'w) Signal" where
  "on_dns_resolvehost_end self = self_on_dns_resolvehost_end self"

definition on_dns_cache_hit :: "('c, 'w) TraceConfig \<Rightarrow> ('c, 'w) Signal" where
  "on_dns_cache_hit self = self_on_dns_cache_hit self"

definition on_dns_cache_miss :: "('c, 'w) TraceConfig \<Rightarrow> ('c, 'w) Signal" where
  "on_dns_cache_miss self = self_on_dns_cache_miss self"

definition on_request_headers_sent :: "('c, 'w) TraceConfig \<Rightarrow> ('c, 'w) Signal" where
  "on_request_headers_sent self = self_on_request_headers_sent self"

section \<open>Trace\<close>

record ('c, 'w) Trace =
  self_trace_config :: "('c, 'w) TraceConfig"
  self_trace_config_ctx :: 'c
  self_session :: ClientSession

text \<open>
  A Trace holds a reference to its TraceConfig. No method of Trace changes the
  TraceConfig, so the field holds the state of the referenced object at the time of the
  call.
\<close>

definition Trace_init ::
  "ClientSession \<Rightarrow> ('c, 'w) TraceConfig \<Rightarrow> 'c \<Rightarrow> ('c, 'w) Trace" where
  "Trace_init session trace_config ctx =
     \<lparr>self_trace_config = trace_config,
      self_trace_config_ctx = ctx,
      self_session = session\<rparr>"

text \<open>
  The sixteen coroutines, in the order of the source. Fourteen reach their signal through
  the property, \<^verbatim>\<open>send_request_redirect\<close> and \<^verbatim>\<open>send_request_headers\<close> through the
  attribute.
\<close>

definition send_request_start ::
  "('c, 'w) Trace \<Rightarrow> string \<Rightarrow> URL \<Rightarrow> CIMultiDict \<Rightarrow> 'w \<Rightarrow> (exn + unit) \<times> 'w" where
  "send_request_start self m u hs w =
     Signal_send (on_request_start (self_trace_config self))
       (self_session self) (self_trace_config_ctx self) (TraceRequestStartParams m u hs) w"

definition send_request_chunk_sent ::
  "('c, 'w) Trace \<Rightarrow> string \<Rightarrow> URL \<Rightarrow> bytes \<Rightarrow> 'w \<Rightarrow> (exn + unit) \<times> 'w" where
  "send_request_chunk_sent self m u ch w =
     Signal_send (on_request_chunk_sent (self_trace_config self))
       (self_session self) (self_trace_config_ctx self) (TraceRequestChunkSentParams m u ch) w"

definition send_response_chunk_received ::
  "('c, 'w) Trace \<Rightarrow> string \<Rightarrow> URL \<Rightarrow> bytes \<Rightarrow> 'w \<Rightarrow> (exn + unit) \<times> 'w" where
  "send_response_chunk_received self m u ch w =
     Signal_send (on_response_chunk_received (self_trace_config self))
       (self_session self) (self_trace_config_ctx self) (TraceResponseChunkReceivedParams m u ch) w"

definition send_request_end ::
  "('c, 'w) Trace \<Rightarrow> string \<Rightarrow> URL \<Rightarrow> CIMultiDict \<Rightarrow> ClientResponse \<Rightarrow> 'w \<Rightarrow> (exn + unit) \<times> 'w" where
  "send_request_end self m u hs resp w =
     Signal_send (on_request_end (self_trace_config self))
       (self_session self) (self_trace_config_ctx self) (TraceRequestEndParams m u hs resp) w"

definition send_request_exception ::
  "('c, 'w) Trace \<Rightarrow> string \<Rightarrow> URL \<Rightarrow> CIMultiDict \<Rightarrow> exn \<Rightarrow> 'w \<Rightarrow> (exn + unit) \<times> 'w" where
  "send_request_exception self m u hs exc w =
     Signal_send (on_request_exception (self_trace_config self))
       (self_session self) (self_trace_config_ctx self) (TraceRequestExceptionParams m u hs exc) w"

definition send_request_redirect ::
  "('c, 'w) Trace \<Rightarrow> string \<Rightarrow> URL \<Rightarrow> CIMultiDict \<Rightarrow> ClientResponse \<Rightarrow> 'w \<Rightarrow> (exn + unit) \<times> 'w" where
  "send_request_redirect self m u hs resp w =
     Signal_send (self_on_request_redirect (self_trace_config self))
       (self_session self) (self_trace_config_ctx self) (TraceRequestRedirectParams m u hs resp) w"

definition send_connection_queued_start ::
  "('c, 'w) Trace \<Rightarrow> 'w \<Rightarrow> (exn + unit) \<times> 'w" where
  "send_connection_queued_start self w =
     Signal_send (on_connection_queued_start (self_trace_config self))
       (self_session self) (self_trace_config_ctx self) TraceConnectionQueuedStartParams w"

definition send_connection_queued_end ::
  "('c, 'w) Trace \<Rightarrow> 'w \<Rightarrow> (exn + unit) \<times> 'w" where
  "send_connection_queued_end self w =
     Signal_send (on_connection_queued_end (self_trace_config self))
       (self_session self) (self_trace_config_ctx self) TraceConnectionQueuedEndParams w"

definition send_connection_create_start ::
  "('c, 'w) Trace \<Rightarrow> 'w \<Rightarrow> (exn + unit) \<times> 'w" where
  "send_connection_create_start self w =
     Signal_send (on_connection_create_start (self_trace_config self))
       (self_session self) (self_trace_config_ctx self) TraceConnectionCreateStartParams w"

definition send_connection_create_end ::
  "('c, 'w) Trace \<Rightarrow> 'w \<Rightarrow> (exn + unit) \<times> 'w" where
  "send_connection_create_end self w =
     Signal_send (on_connection_create_end (self_trace_config self))
       (self_session self) (self_trace_config_ctx self) TraceConnectionCreateEndParams w"

definition send_connection_reuseconn ::
  "('c, 'w) Trace \<Rightarrow> 'w \<Rightarrow> (exn + unit) \<times> 'w" where
  "send_connection_reuseconn self w =
     Signal_send (on_connection_reuseconn (self_trace_config self))
       (self_session self) (self_trace_config_ctx self) TraceConnectionReuseconnParams w"

definition send_dns_resolvehost_start ::
  "('c, 'w) Trace \<Rightarrow> string \<Rightarrow> 'w \<Rightarrow> (exn + unit) \<times> 'w" where
  "send_dns_resolvehost_start self hst w =
     Signal_send (on_dns_resolvehost_start (self_trace_config self))
       (self_session self) (self_trace_config_ctx self) (TraceDnsResolveHostStartParams hst) w"

definition send_dns_resolvehost_end ::
  "('c, 'w) Trace \<Rightarrow> string \<Rightarrow> 'w \<Rightarrow> (exn + unit) \<times> 'w" where
  "send_dns_resolvehost_end self hst w =
     Signal_send (on_dns_resolvehost_end (self_trace_config self))
       (self_session self) (self_trace_config_ctx self) (TraceDnsResolveHostEndParams hst) w"

definition send_dns_cache_hit ::
  "('c, 'w) Trace \<Rightarrow> string \<Rightarrow> 'w \<Rightarrow> (exn + unit) \<times> 'w" where
  "send_dns_cache_hit self hst w =
     Signal_send (on_dns_cache_hit (self_trace_config self))
       (self_session self) (self_trace_config_ctx self) (TraceDnsCacheHitParams hst) w"

definition send_dns_cache_miss ::
  "('c, 'w) Trace \<Rightarrow> string \<Rightarrow> 'w \<Rightarrow> (exn + unit) \<times> 'w" where
  "send_dns_cache_miss self hst w =
     Signal_send (on_dns_cache_miss (self_trace_config self))
       (self_session self) (self_trace_config_ctx self) (TraceDnsCacheMissParams hst) w"

definition send_request_headers ::
  "('c, 'w) Trace \<Rightarrow> string \<Rightarrow> URL \<Rightarrow> CIMultiDict \<Rightarrow> 'w \<Rightarrow> (exn + unit) \<times> 'w" where
  "send_request_headers self m u hs w =
     Signal_send (self_on_request_headers_sent (self_trace_config self))
       (self_session self) (self_trace_config_ctx self) (TraceRequestHeadersSentParams m u hs) w"

section \<open>Names for the signals and the calls of a Trace\<close>

text \<open>
  To speak about all sixteen signals and all sixteen methods at once: the name of a
  signal, the signal of that name in a TraceConfig (read through its property) and its
  replacement; and a call of one of the \<^verbatim>\<open>send_*\<close> methods with its arguments.
\<close>

datatype signal_name =
    On_request_start
  | On_request_chunk_sent
  | On_response_chunk_received
  | On_request_end
  | On_request_exception
  | On_request_redirect
  | On_connection_queued_start
  | On_connection_queued_end
  | On_connection_create_start
  | On_connection_create_end
  | On_connection_reuseconn
  | On_dns_resolvehost_start
  | On_dns_resolvehost_end
  | On_dns_cache_hit
  | On_dns_cache_miss
  | On_request_headers_sent

fun signal_of :: "signal_name \<Rightarrow> ('c, 'w) TraceConfig \<Rightarrow> ('c, 'w) Signal" where
  "signal_of On_request_start tc = on_request_start tc"
| "signal_of On_request_chunk_sent tc = on_request_chunk_sent tc"
| "signal_of On_response_chunk_received tc = on_response_chunk_received tc"
| "signal_of On_request_end tc = on_request_end tc"
| "signal_of On_request_exception tc = on_request_exception tc"
| "signal_of On_request_redirect tc = on_request_redirect tc"
| "signal_of On_connection_queued_start tc = on_connection_queued_start tc"
| "signal_of On_connection_queued_end tc = on_connection_queued_end tc"
| "signal_of On_connection_create_start tc = on_connection_create_start tc"
| "signal_of On_connection_create_end tc = on_connection_create_end tc"
| "signal_of On_connection_reuseconn tc = on_connection_reuseconn tc"
| "signal_of On_dns_resolvehost_start tc = on_dns_resolvehost_start tc"
| "signal_of On_dns_resolvehost_end tc = on_dns_resolvehost_end tc"
| "signal_of On_dns_cache_hit tc = on_dns_cache_hit tc"
| "signal_of On_dns_cache_miss tc = on_dns_cache_miss tc"
| "signal_of On_request_headers_sent tc = on_request_headers_sent tc"

fun put_signal ::
  "signal_name \<Rightarrow> ('c, 'w) Signal \<Rightarrow> ('c, 'w) TraceConfig \<Rightarrow> ('c, 'w) TraceConfig" where
  "put_signal On_request_start sg tc = tc\<lparr>self_on_request_start := sg\<rparr>"
| "put_signal On_request_chunk_sent sg tc = tc\<lparr>self_on_request_chunk_sent := sg\<rparr>"
| "put_signal On_response_chunk_received sg tc = tc\<lparr>self_on_response_chunk_received := sg\<rparr>"
| "put_signal On_request_end sg tc = tc\<lparr>self_on_request_end := sg\<rparr>"
| "put_signal On_request_exception sg tc = tc\<lparr>self_on_request_exception := sg\<rparr>"
| "put_signal On_request_redirect sg tc = tc\<lparr>self_on_request_redirect := sg\<rparr>"
| "put_signal On_connection_queued_start sg tc = tc\<lparr>self_on_connection_queued_start := sg\<rparr>"
| "put_signal On_connection_queued_end sg tc = tc\<lparr>self_on_connection_queued_end := sg\<rparr>"
| "put_signal On_connection_create_start sg tc = tc\<lparr>self_on_connection_create_start := sg\<rparr>"
| "put_signal On_connection_create_end sg tc = tc\<lparr>self_on_connection_create_end := sg\<rparr>"
| "put_signal On_connection_reuseconn sg tc = tc\<lparr>self_on_connection_reuseconn := sg\<rparr>"
| "put_signal On_dns_resolvehost_start sg tc = tc\<lparr>self_on_dns_resolvehost_start := sg\<rparr>"
| "put_signal On_dns_resolvehost_end sg tc = tc\<lparr>self_on_dns_resolvehost_end := sg\<rparr>"
| "put_signal On_dns_cache_hit sg tc = tc\<lparr>self_on_dns_cache_hit := sg\<rparr>"
| "put_signal On_dns_cache_miss sg tc = tc\<lparr>self_on_dns_cache_miss := sg\<rparr>"
| "put_signal On_request_headers_sent sg tc = tc\<lparr>self_on_request_headers_sent := sg\<rparr>"

definition all_signal_names :: "signal_name list" where
  "all_signal_names =
     [On_request_start,
      On_request_chunk_sent,
      On_response_chunk_received,
      On_request_end,
      On_request_exception,
      On_request_redirect,
      On_connection_queued_start,
      On_connection_queued_end,
      On_connection_create_start,
      On_connection_create_end,
      On_connection_reuseconn,
      On_dns_resolvehost_start,
      On_dns_resolvehost_end,
      On_dns_cache_hit,
      On_dns_cache_miss,
      On_request_headers_sent]"

datatype send_method =
    Send_request_start
  | Send_request_chunk_sent
  | Send_response_chunk_received
  | Send_request_end
  | Send_request_exception
  | Send_request_redirect
  | Send_connection_queued_start
  | Send_connection_queued_end
  | Send_connection_create_start
  | Send_connection_create_end
  | Send_connection_reuseconn
  | Send_dns_resolvehost_start
  | Send_dns_resolvehost_end
  | Send_dns_cache_hit
  | Send_dns_cache_miss
  | Send_request_headers

datatype send_call =
    Call_send_request_start string URL CIMultiDict
  | Call_send_request_chunk_sent string URL bytes
  | Call_send_response_chunk_received string URL bytes
  | Call_send_request_end string URL CIMultiDict ClientResponse
  | Call_send_request_exception string URL CIMultiDict exn
  | Call_send_request_redirect string URL CIMultiDict ClientResponse
  | Call_send_connection_queued_start
  | Call_send_connection_queued_end
  | Call_send_connection_create_start
  | Call_send_connection_create_end
  | Call_send_connection_reuseconn
  | Call_send_dns_resolvehost_start string
  | Call_send_dns_resolvehost_end string
  | Call_send_dns_cache_hit string
  | Call_send_dns_cache_miss string
  | Call_send_request_headers string URL CIMultiDict

fun method_of :: "send_call \<Rightarrow> send_method" where
  "method_of (Call_send_request_start m u hs) = Send_request_start"
| "method_of (Call_send_request_chunk_sent m u ch) = Send_request_chunk_sent"
| "method_of (Call_send_response_chunk_received m u ch) = Send_response_chunk_received"
| "method_of (Call_send_request_end m u hs resp) = Send_request_end"
| "method_of (Call_send_request_exception m u hs exc) = Send_request_exception"
| "method_of (Call_send_request_redirect m u hs resp) = Send_request_redirect"
| "method_of Call_send_connection_queued_start = Send_connection_queued_start"
| "method_of Call_send_connection_queued_end = Send_connection_queued_end"
| "method_of Call_send_connection_create_start = Send_connection_create_start"
| "method_of Call_send_connection_create_end = Send_connection_create_end"
| "method_of Call_send_connection_reuseconn = Send_connection_reuseconn"
| "method_of (Call_send_dns_resolvehost_start hst) = Send_dns_resolvehost_start"
| "method_of (Call_send_dns_resolvehost_end hst) = Send_dns_resolvehost_end"
| "method_of (Call_send_dns_cache_hit hst) = Send_dns_cache_hit"
| "method_of (Call_send_dns_cache_miss hst) = Send_dns_cache_miss"
| "method_of (Call_send_request_headers m u hs) = Send_request_headers"

fun perform :: "('c, 'w) Trace \<Rightarrow> send_call \<Rightarrow> 'w \<Rightarrow> (exn + unit) \<times> 'w" where
  "perform t (Call_send_request_start m u hs) = send_request_start t m u hs"
| "perform t (Call_send_request_chunk_sent m u ch) = send_request_chunk_sent t m u ch"
| "perform t (Call_send_response_chunk_received m u ch) = send_response_chunk_received t m u ch"
| "perform t (Call_send_request_end m u hs resp) = send_request_end t m u hs resp"
| "perform t (Call_send_request_exception m u hs exc) = send_request_exception t m u hs exc"
| "perform t (Call_send_request_redirect m u hs resp) = send_request_redirect t m u hs resp"
| "perform t Call_send_connection_queued_start = send_connection_queued_start t"
| "perform t Call_send_connection_queued_end = send_connection_queued_end t"
| "perform t Call_send_connection_create_start = send_connection_create_start t"
| "perform t Call_send_connection_create_end = send_connection_create_end t"
| "perform t Call_send_connection_reuseconn = send_connection_reuseconn t"
| "perform t (Call_send_dns_resolvehost_start hst) = send_dns_resolvehost_start t hst"
| "perform t (Call_send_dns_resolvehost_end hst) = send_dns_resolvehost_end t hst"
| "perform t (Call_send_dns_cache_hit hst) = send_dns_cache_hit t hst"
| "perform t (Call_send_dns_cache_miss hst) = send_dns_cache_miss t hst"
| "perform t (Call_send_request_headers m u hs) = send_request_headers t m u hs"

text \<open>
  The signal a method names in its body, and the payload it constructs from its
  arguments, read off the sixteen method bodies.
\<close>

fun signal_for :: "send_method \<Rightarrow> signal_name" where
  "signal_for Send_request_start = On_request_start"
| "signal_for Send_request_chunk_sent = On_request_chunk_sent"
| "signal_for Send_response_chunk_received = On_response_chunk_received"
| "signal_for Send_request_end = On_request_end"
| "signal_for Send_request_exception = On_request_exception"
| "signal_for Send_request_redirect = On_request_redirect"
| "signal_for Send_connection_queued_start = On_connection_queued_start"
| "signal_for Send_connection_queued_end = On_connection_queued_end"
| "signal_for Send_connection_create_start = On_connection_create_start"
| "signal_for Send_connection_create_end = On_connection_create_end"
| "signal_for Send_connection_reuseconn = On_connection_reuseconn"
| "signal_for Send_dns_resolvehost_start = On_dns_resolvehost_start"
| "signal_for Send_dns_resolvehost_end = On_dns_resolvehost_end"
| "signal_for Send_dns_cache_hit = On_dns_cache_hit"
| "signal_for Send_dns_cache_miss = On_dns_cache_miss"
| "signal_for Send_request_headers = On_request_headers_sent"

text \<open>The method that sends on a signal.\<close>

fun method_for :: "signal_name \<Rightarrow> send_method" where
  "method_for On_request_start = Send_request_start"
| "method_for On_request_chunk_sent = Send_request_chunk_sent"
| "method_for On_response_chunk_received = Send_response_chunk_received"
| "method_for On_request_end = Send_request_end"
| "method_for On_request_exception = Send_request_exception"
| "method_for On_request_redirect = Send_request_redirect"
| "method_for On_connection_queued_start = Send_connection_queued_start"
| "method_for On_connection_queued_end = Send_connection_queued_end"
| "method_for On_connection_create_start = Send_connection_create_start"
| "method_for On_connection_create_end = Send_connection_create_end"
| "method_for On_connection_reuseconn = Send_connection_reuseconn"
| "method_for On_dns_resolvehost_start = Send_dns_resolvehost_start"
| "method_for On_dns_resolvehost_end = Send_dns_resolvehost_end"
| "method_for On_dns_cache_hit = Send_dns_cache_hit"
| "method_for On_dns_cache_miss = Send_dns_cache_miss"
| "method_for On_request_headers_sent = Send_request_headers"

fun payload_of :: "send_call \<Rightarrow> params" where
  "payload_of (Call_send_request_start m u hs) = TraceRequestStartParams m u hs"
| "payload_of (Call_send_request_chunk_sent m u ch) = TraceRequestChunkSentParams m u ch"
| "payload_of (Call_send_response_chunk_received m u ch) = TraceResponseChunkReceivedParams m u ch"
| "payload_of (Call_send_request_end m u hs resp) = TraceRequestEndParams m u hs resp"
| "payload_of (Call_send_request_exception m u hs exc) = TraceRequestExceptionParams m u hs exc"
| "payload_of (Call_send_request_redirect m u hs resp) = TraceRequestRedirectParams m u hs resp"
| "payload_of Call_send_connection_queued_start = TraceConnectionQueuedStartParams"
| "payload_of Call_send_connection_queued_end = TraceConnectionQueuedEndParams"
| "payload_of Call_send_connection_create_start = TraceConnectionCreateStartParams"
| "payload_of Call_send_connection_create_end = TraceConnectionCreateEndParams"
| "payload_of Call_send_connection_reuseconn = TraceConnectionReuseconnParams"
| "payload_of (Call_send_dns_resolvehost_start hst) = TraceDnsResolveHostStartParams hst"
| "payload_of (Call_send_dns_resolvehost_end hst) = TraceDnsResolveHostEndParams hst"
| "payload_of (Call_send_dns_cache_hit hst) = TraceDnsCacheHitParams hst"
| "payload_of (Call_send_dns_cache_miss hst) = TraceDnsCacheMissParams hst"
| "payload_of (Call_send_request_headers m u hs) = TraceRequestHeadersSentParams m u hs"

text \<open>A request attempt makes its calls one after the other and stops at the first raise.\<close>

fun perform_all ::
  "('c, 'w) Trace \<Rightarrow> send_call list \<Rightarrow> 'w \<Rightarrow> (exn + unit) \<times> 'w" where
  "perform_all t [] w = (Inr (), w)"
| "perform_all t (c # cs) w =
     (case perform t c w of
        (Inl e, w') \<Rightarrow> (Inl e, w')
      | (Inr u, w') \<Rightarrow> perform_all t cs w')"

text \<open>The same for one signal: \<open>n\<close> sends in a row with the same arguments.\<close>

fun send_times ::
  "nat \<Rightarrow> ('c, 'w) Signal \<Rightarrow> ClientSession \<Rightarrow> 'c \<Rightarrow> params \<Rightarrow> 'w \<Rightarrow> (exn + unit) \<times> 'w" where
  "send_times 0 s owner ctx p w = (Inr (), w)"
| "send_times (Suc n) s owner ctx p w =
     (case Signal_send s owner ctx p w of
        (Inl e, w') \<Rightarrow> (Inl e, w')
      | (Inr u, w') \<Rightarrow> send_times n s owner ctx p w')"

section \<open>Observing what listeners are called with\<close>

text \<open>
  What a listener is called with, and in which order listeners are called, is made
  visible by wrapping: \<open>observed k i l\<close> behaves as the listener \<open>l\<close> on its part of the
  world and also writes down, in a log beside it, that listener number \<open>i\<close> of
  signal \<open>k\<close> was called and the three arguments of the call. The log is out of reach
  of the wrapped listener. \<open>observe_config\<close> wraps every listener of every signal of a
  TraceConfig, numbering the listeners of a signal from 0 in registration order.
\<close>

type_synonym 'c event = "signal_name \<times> nat \<times> ClientSession \<times> 'c \<times> params"

definition ev_signal :: "'c event \<Rightarrow> signal_name" where
  "ev_signal ev = fst ev"

definition ev_ctx :: "'c event \<Rightarrow> 'c" where
  "ev_ctx ev = fst (snd (snd (snd ev)))"

definition ev_payload :: "'c event \<Rightarrow> params" where
  "ev_payload ev = snd (snd (snd (snd ev)))"

definition observed ::
  "signal_name \<Rightarrow> nat \<Rightarrow> ('c, 'w) listener \<Rightarrow> ('c, 'w \<times> 'c event list) listener" where
  "observed k i l owner ctx p wl =
     (case l owner ctx p (fst wl) of
        (r, w') \<Rightarrow> (r, (w', snd wl @ [(k, i, owner, ctx, p)])))"

fun observe_from ::
  "signal_name \<Rightarrow> nat \<Rightarrow> ('c, 'w) listener list \<Rightarrow> ('c, 'w \<times> 'c event list) listener list" where
  "observe_from k i [] = []"
| "observe_from k i (l # ls) = observed k i l # observe_from k (Suc i) ls"

definition observe_signal ::
  "signal_name \<Rightarrow> ('c, 'w) Signal \<Rightarrow> ('c, 'w \<times> 'c event list) Signal" where
  "observe_signal k s = \<lparr>listeners = observe_from k 0 (listeners s), frozen = frozen s\<rparr>"

definition lift_factory :: "('c, 'w) factory \<Rightarrow> ('c, 'w \<times> 'c event list) factory" where
  "lift_factory f kw wl = (case f kw (fst wl) of (r, w') \<Rightarrow> (r, (w', snd wl)))"

definition observe_config ::
  "('c, 'w) TraceConfig \<Rightarrow> ('c, 'w \<times> 'c event list) TraceConfig" where
  "observe_config tc =
     \<lparr>self_on_request_start = observe_signal On_request_start (self_on_request_start tc),
      self_on_request_chunk_sent = observe_signal On_request_chunk_sent (self_on_request_chunk_sent tc),
      self_on_response_chunk_received = observe_signal On_response_chunk_received (self_on_response_chunk_received tc),
      self_on_request_end = observe_signal On_request_end (self_on_request_end tc),
      self_on_request_exception = observe_signal On_request_exception (self_on_request_exception tc),
      self_on_request_redirect = observe_signal On_request_redirect (self_on_request_redirect tc),
      self_on_connection_queued_start = observe_signal On_connection_queued_start (self_on_connection_queued_start tc),
      self_on_connection_queued_end = observe_signal On_connection_queued_end (self_on_connection_queued_end tc),
      self_on_connection_create_start = observe_signal On_connection_create_start (self_on_connection_create_start tc),
      self_on_connection_create_end = observe_signal On_connection_create_end (self_on_connection_create_end tc),
      self_on_connection_reuseconn = observe_signal On_connection_reuseconn (self_on_connection_reuseconn tc),
      self_on_dns_resolvehost_start = observe_signal On_dns_resolvehost_start (self_on_dns_resolvehost_start tc),
      self_on_dns_resolvehost_end = observe_signal On_dns_resolvehost_end (self_on_dns_resolvehost_end tc),
      self_on_dns_cache_hit = observe_signal On_dns_cache_hit (self_on_dns_cache_hit tc),
      self_on_dns_cache_miss = observe_signal On_dns_cache_miss (self_on_dns_cache_miss tc),
      self_on_request_headers_sent = observe_signal On_request_headers_sent (self_on_request_headers_sent tc),
      self_trace_config_ctx_factory = lift_factory (self_trace_config_ctx_factory tc)\<rparr>"

text \<open>The log an observed run leaves.\<close>

definition seen :: "(exn + unit) \<times> ('w \<times> 'c event list) \<Rightarrow> 'c event list" where
  "seen r = snd (snd r)"

text \<open>
  The number of listeners the loop of \<open>send\<close> calls: all of them up to and including the
  first that raises; none on a signal that is not frozen.
\<close>

fun invoked ::
  "('c, 'w) listener list \<Rightarrow> ClientSession \<Rightarrow> 'c \<Rightarrow> params \<Rightarrow> 'w \<Rightarrow> nat" where
  "invoked [] owner ctx p w = 0"
| "invoked (l # ls) owner ctx p w =
     (case l owner ctx p w of
        (Inl e, w') \<Rightarrow> Suc 0
      | (Inr u, w') \<Rightarrow> Suc (invoked ls owner ctx p w'))"

definition calls :: "('c, 'w) Signal \<Rightarrow> ClientSession \<Rightarrow> 'c \<Rightarrow> params \<Rightarrow> 'w \<Rightarrow> nat" where
  "calls s owner ctx p w = (if \<not> frozen s then 0 else invoked (listeners s) owner ctx p w)"

text \<open>Registration of a sequence of listeners on a new signal, then the freeze.\<close>

definition register_then_freeze :: "('c, 'w) listener list \<Rightarrow> exn + ('c, 'w) Signal" where
  "register_then_freeze ls =
     (case append_all ls Signal_new of Inl e \<Rightarrow> Inl e | Inr s \<Rightarrow> Inr (Signal_freeze s))"

text \<open>Listeners for concrete runs: one that adds to a counter, one that raises.\<close>

definition adding :: "nat \<Rightarrow> ('c, nat) listener" where
  "adding n owner ctx p w = (Inr (), w + n)"

definition doubling :: "('c, nat) listener" where
  "doubling owner ctx p w = (Inr (), 2 * w)"

definition raising :: "exn \<Rightarrow> ('c, 'w) listener" where
  "raising e owner ctx p w = (Inl e, w)"

text \<open>
  A configuration for concrete runs: three listeners on \<^verbatim>\<open>on_request_end\<close>, the second of
  which raises, and the freeze.
\<close>

definition example_config :: "(nat, nat) TraceConfig" where
  "example_config =
     TraceConfig_freeze
       (put_signal On_request_end
          \<lparr>listeners = [adding 1, raising (ValueError ''boom''), adding 10], frozen = False\<rparr>
          (TraceConfig_init (\<lambda>kw w. (Inr 0, w))))"

section \<open>Context factories\<close>

text \<open>
  A factory written as a Python function with named parameters and no \<^verbatim>\<open>**kwargs\<close>:
  a call with a keyword that is not one of its parameters raises TypeError before the
  body runs.
\<close>

definition with_parameters :: "string list \<Rightarrow> ('c, 'w) factory \<Rightarrow> ('c, 'w) factory" where
  "with_parameters names body kw w =
     (if list_all (\<lambda>k. k \<in> set names) (map fst kw) then body kw w
      else (Inl (TypeError ''unexpected keyword argument''), w))"

text \<open>A factory that writes down the keyword arguments of each call.\<close>

definition spy_factory :: "(unit, kwargs list) factory" where
  "spy_factory kw w = (Inr (), w @ [kw])"

text \<open>
  A factory constructs a fresh object when every call allocates one new object at the
  end of the store and leaves the older objects as they are.
\<close>

definition constructs_fresh :: "(nat, heap) factory \<Rightarrow> bool" where
  "constructs_fresh f = (\<forall>kw h. \<exists>obj. f kw h = (Inr (length h), h @ [obj]))"

text \<open>The value the factory receives for a seed: an omitted seed is Python's None.\<close>

definition seed_value :: "pyval option \<Rightarrow> pyval" where
  "seed_value trace_request_ctx = (case trace_request_ctx of None \<Rightarrow> PyNone | Some x \<Rightarrow> x)"

section \<open>Properties of Signal\<close>

lemma append_all_open:
  "\<not> frozen s \<Longrightarrow> append_all ls s = Inr (s\<lparr>listeners := listeners s @ ls\<rparr>)"
  by (induction ls arbitrary: s) (simp_all add: Signal_append_def)

lemma run_observe_from:
  "run_listeners (observe_from k i ls) ow c p (w, log) =
     (fst (run_listeners ls ow c p w),
      (snd (run_listeners ls ow c p w),
       log @ map (\<lambda>j. (k, j, ow, c, p)) [i..<i + invoked ls ow c p w]))"
proof (induction ls arbitrary: i w log)
  case Nil
  then show ?case by simp
next
  case (Cons l ls)
  obtain r w' where lw: "l ow c p w = (r, w')" by (cases "l ow c p w")
  show ?case
  proof (cases r)
    case (Inl e)
    with lw show ?thesis by (simp add: observed_def)
  next
    case (Inr u)
    with lw Cons.IH [of "Suc i" w' "log @ [(k, i, ow, c, p)]"] show ?thesis
      by (simp add: observed_def upt_conv_Cons)
  qed
qed

lemma invoked_le: "invoked ls ow c p w \<le> length ls"
proof (induction ls arbitrary: w)
  case Nil
  then show ?case by simp
next
  case (Cons l ls)
  obtain r w' where lw: "l ow c p w = (r, w')" by (cases "l ow c p w")
  with Cons.IH [of w'] show ?case by (cases r) simp_all
qed

lemma invoked_all:
  "fst (run_listeners ls ow c p w) = Inr () \<Longrightarrow> invoked ls ow c p w = length ls"
  by (induction ls arbitrary: w) (auto split: prod.splits sum.splits)

lemma invoked_raise:
  "run_listeners pre ow c p w = (Inr (), w1) \<Longrightarrow> l ow c p w1 = (Inl e, w2) \<Longrightarrow>
   invoked (pre @ l # post) ow c p w = Suc (length pre)"
  by (induction pre arbitrary: w) (auto split: prod.splits sum.splits)

lemma run_raise:
  "run_listeners pre ow c p w = (Inr (), w1) \<Longrightarrow> l ow c p w1 = (Inl e, w2) \<Longrightarrow>
   run_listeners (pre @ l # post) ow c p w = (Inl e, w2)"
  by (induction pre arbitrary: w) (auto split: prod.splits sum.splits)

lemma send_observed:
  "Signal_send (observe_signal k s) ow c p (w, log) =
     (fst (Signal_send s ow c p w),
      (snd (Signal_send s ow c p w),
       log @ map (\<lambda>j. (k, j, ow, c, p)) [0..<calls s ow c p w]))"
  using run_observe_from [of k 0 "listeners s" ow c p w log]
  by (simp add: Signal_send_def observe_signal_def calls_def)

lemma register_then_freeze_eq:
  "register_then_freeze ls = Inr \<lparr>listeners = ls, frozen = True\<rparr>"
  by (simp add: register_then_freeze_def append_all_open Signal_new_def Signal_freeze_def)

lemma send_times_observed:
  "send_times n s ow c p w = (Inr (), w') \<Longrightarrow>
   send_times n (observe_signal k s) ow c p (w, log) =
     (Inr (), (w', log @ concat (replicate n (map (\<lambda>j. (k, j, ow, c, p)) [0..<length (listeners s)]))))"
proof (induction n arbitrary: w log)
  case 0
  then show ?case by simp
next
  case (Suc n)
  obtain r w1 where sw: "Signal_send s ow c p w = (r, w1)" by (cases "Signal_send s ow c p w")
  with Suc.prems have r: "r = Inr ()" and rest: "send_times n s ow c p w1 = (Inr (), w')"
    by (auto split: sum.splits)
  from sw r have fr: "frozen s" by (auto simp: Signal_send_def split: if_splits)
  with sw r have "fst (run_listeners (listeners s) ow c p w) = Inr ()"
    by (simp add: Signal_send_def)
  then have n: "calls s ow c p w = length (listeners s)"
    using fr by (simp add: calls_def invoked_all)
  show ?case
    using Suc.IH [OF rest] sw r n by (simp add: send_observed)
qed

text \<open>
  Claim C1. Let the listeners \<open>ls\<close> be appended, in this order, to a new signal, and the
  signal then be frozen. Whenever \<open>n\<close> sends in a row complete without a listener
  raising, for any \<open>n\<close> and from any world, the calls the listeners receive are, for each
  send in turn, listener 0, listener 1, ... up to the last, each once and each with the
  arguments of the send; each listener starts on the world its predecessor returned,
  and the observation changes neither the result nor the world.
\<close>

theorem Signal_send_registration_order:
  assumes "register_then_freeze ls = Inr s"
      and "send_times n s ow c p w = (Inr (), w')"
  shows "register_then_freeze (observe_from k 0 ls) = Inr (observe_signal k s) \<and>
         send_times n (observe_signal k s) ow c p (w, log) =
           (Inr (), (w', log @ concat (replicate n (map (\<lambda>j. (k, j, ow, c, p)) [0..<length ls]))))"
proof -
  from assms(1) have s: "s = \<lparr>listeners = ls, frozen = True\<rparr>"
    by (simp add: register_then_freeze_eq)
  then have "register_then_freeze (observe_from k 0 ls) = Inr (observe_signal k s)"
    by (simp add: register_then_freeze_eq observe_signal_def)
  moreover have "length (listeners s) = length ls" using s by simp
  ultimately show ?thesis using send_times_observed [OF assms(2), of k log] by simp
qed

theorem Signal_send_registration_order_witness:
  "register_then_freeze [adding 1, doubling :: (nat, nat) listener] =
     Inr \<lparr>listeners = [adding 1, doubling], frozen = True\<rparr> \<and>
   send_times 2 \<lparr>listeners = [adding 1, doubling], frozen = True\<rparr> (ClientSession_ref 0) (7::nat) (TraceDnsCacheHitParams ''h'') 0 = (Inr (), 6) \<and>
   send_times 2 (observe_signal On_dns_cache_hit \<lparr>listeners = [adding 1, doubling], frozen = True\<rparr>)
       (ClientSession_ref 0) (7::nat) (TraceDnsCacheHitParams ''h'') (0, []) =
     (Inr (), (6,
       [(On_dns_cache_hit, 0, ClientSession_ref 0, 7, TraceDnsCacheHitParams ''h''),
        (On_dns_cache_hit, 1, ClientSession_ref 0, 7, TraceDnsCacheHitParams ''h''),
        (On_dns_cache_hit, 0, ClientSession_ref 0, 7, TraceDnsCacheHitParams ''h''),
        (On_dns_cache_hit, 1, ClientSession_ref 0, 7, TraceDnsCacheHitParams ''h'')]))"
proof -
  have a: "register_then_freeze [adding 1, doubling] = Inr \<lparr>listeners = [adding 1, doubling :: (nat, nat) listener], frozen = True\<rparr>"
    by (simp add: register_then_freeze_def Signal_append_def Signal_new_def Signal_freeze_def)
  have b: "send_times 2 \<lparr>listeners = [adding 1, doubling], frozen = True\<rparr> (ClientSession_ref 0) (7::nat) (TraceDnsCacheHitParams ''h'') 0 = (Inr (), 6)"
    by (simp add: numeral_2_eq_2 Signal_send_def adding_def doubling_def)
  have d: "concat (replicate 2 (map f [0..<length [adding 1, doubling :: (nat, nat) listener]])) = [f 0, f 1, f 0, f 1]" for f :: "nat \<Rightarrow> nat event"
    by (simp add: numeral_2_eq_2 upt_conv_Cons)
  note c = Signal_send_registration_order [OF a b, of On_dns_cache_hit "[]", unfolded d]
  show ?thesis using a b c by simp
qed

section \<open>Properties of Trace\<close>

lemmas on_defs =
  on_request_start_def on_request_chunk_sent_def on_response_chunk_received_def
  on_request_end_def on_request_exception_def on_request_redirect_def
  on_connection_queued_start_def on_connection_queued_end_def
  on_connection_create_start_def on_connection_create_end_def
  on_connection_reuseconn_def on_dns_resolvehost_start_def on_dns_resolvehost_end_def
  on_dns_cache_hit_def on_dns_cache_miss_def on_request_headers_sent_def

lemmas send_defs =
  send_request_start_def send_request_chunk_sent_def send_response_chunk_received_def
  send_request_end_def send_request_exception_def send_request_redirect_def
  send_connection_queued_start_def send_connection_queued_end_def
  send_connection_create_start_def send_connection_create_end_def
  send_connection_reuseconn_def send_dns_resolvehost_start_def
  send_dns_resolvehost_end_def send_dns_cache_hit_def send_dns_cache_miss_def
  send_request_headers_def

lemma perform_eq:
  "perform (Trace_init s tc x) call w =
     Signal_send (signal_of (signal_for (method_of call)) tc) s x (payload_of call) w"
  by (cases call) (simp_all add: send_defs on_defs Trace_init_def)

lemma signal_of_observe_config:
  "signal_of k (observe_config tc) = observe_signal k (signal_of k tc)"
  by (cases k) (simp_all add: on_defs observe_config_def)

lemma perform_observed:
  "perform (Trace_init s (observe_config tc) x) call (w, log) =
     (fst (perform (Trace_init s tc x) call w),
      (snd (perform (Trace_init s tc x) call w),
       log @ map (\<lambda>j. (signal_for (method_of call), j, s, x, payload_of call))
         [0..<calls (signal_of (signal_for (method_of call)) tc) s x (payload_of call) w]))"
  by (simp add: perform_eq signal_of_observe_config send_observed)

lemma example_config_request_end:
  "on_request_end example_config =
     \<lparr>listeners = [adding 1, raising (ValueError ''boom''), adding 10], frozen = True\<rparr>"
  by (simp add: example_config_def TraceConfig_freeze_def TraceConfig_init_def
      on_request_end_def Signal_freeze_def)


text \<open>
  Claim C2. Let the signal that a \<^verbatim>\<open>send_*\<close> call dispatches on be frozen with the
  listeners \<open>pre @ l # post\<close>, let the listeners of \<open>pre\<close> complete and \<open>l\<close> raise \<open>e\<close> on
  the world they leave. Then the call returns the exception \<open>e\<close> itself with the world as
  \<open>l\<close> left it, and the listeners called are those of \<open>pre\<close> and \<open>l\<close>, in this order, each
  once: no listener of \<open>post\<close> is called. This holds for each of the sixteen methods.
\<close>

theorem listener_exception_propagates:
  assumes "frozen (signal_of (signal_for (method_of call)) tc)"
      and "listeners (signal_of (signal_for (method_of call)) tc) = pre @ l # post"
      and "run_listeners pre s x (payload_of call) w = (Inr (), w1)"
      and "l s x (payload_of call) w1 = (Inl e, w2)"
  shows "perform (Trace_init s tc x) call w = (Inl e, w2) \<and>
         perform (Trace_init s (observe_config tc) x) call (w, []) =
           (Inl e, (w2, map (\<lambda>j. (signal_for (method_of call), j, s, x, payload_of call))
                          [0..<Suc (length pre)]))"
proof -
  have r: "perform (Trace_init s tc x) call w = (Inl e, w2)"
    using assms run_raise [where l = l and post = post, OF assms(3) assms(4)]
    by (simp add: perform_eq Signal_send_def)
  have n: "calls (signal_of (signal_for (method_of call)) tc) s x (payload_of call) w = Suc (length pre)"
    using assms invoked_raise [where l = l and post = post, OF assms(3) assms(4)] by (simp add: calls_def)
  show ?thesis using r n by (simp add: perform_observed del: upt_Suc)
qed

theorem listener_exception_propagates_witness:
  "frozen (signal_of On_request_end example_config) \<and>
   listeners (signal_of On_request_end example_config) =
     [adding 1] @ raising (ValueError ''boom'') # [adding 10] \<and>
   run_listeners [adding 1] (ClientSession_ref 0) (7::nat)
     (TraceRequestEndParams ''GET'' ''http://example.com/'' [] (ClientResponse_ref 1)) 0 = (Inr (), 1) \<and>
   raising (ValueError ''boom'') (ClientSession_ref 0) (7::nat)
     (TraceRequestEndParams ''GET'' ''http://example.com/'' [] (ClientResponse_ref 1)) (1::nat) =
     (Inl (ValueError ''boom''), 1) \<and>
   send_request_end (Trace_init (ClientSession_ref 0) example_config 7)
     ''GET'' ''http://example.com/'' [] (ClientResponse_ref 1) 0 = (Inl (ValueError ''boom''), 1) \<and>
   send_request_end (Trace_init (ClientSession_ref 0) (observe_config example_config) 7)
     ''GET'' ''http://example.com/'' [] (ClientResponse_ref 1) (0, []) =
     (Inl (ValueError ''boom''),
      (1, [(On_request_end, 0, ClientSession_ref 0, 7,
              TraceRequestEndParams ''GET'' ''http://example.com/'' [] (ClientResponse_ref 1)),
           (On_request_end, 1, ClientSession_ref 0, 7,
              TraceRequestEndParams ''GET'' ''http://example.com/'' [] (ClientResponse_ref 1))]))"
proof -
  let ?call = "Call_send_request_end ''GET'' ''http://example.com/'' [] (ClientResponse_ref 1)"
  have h1: "frozen (signal_of (signal_for (method_of ?call)) example_config)"
    by (simp add: example_config_request_end)
  have h2: "listeners (signal_of (signal_for (method_of ?call)) example_config) =
      [adding 1] @ raising (ValueError ''boom'') # [adding 10]"
    by (simp add: example_config_request_end)
  have h3: "run_listeners [adding 1] (ClientSession_ref 0) (7::nat) (payload_of ?call) 0 = (Inr (), 1)"
    by (simp add: adding_def)
  have h4: "raising (ValueError ''boom'') (ClientSession_ref 0) (7::nat) (payload_of ?call) (1::nat) =
      (Inl (ValueError ''boom''), 1)"
    by (simp add: raising_def)
  have e: "[0..<Suc (length [adding 1 :: (nat, nat) listener])] = [0, 1]"
    by (simp add: upt_conv_Cons)
  note u = perform.simps method_of.simps signal_for.simps payload_of.simps
  note c = listener_exception_propagates [where call = ?call and tc = example_config and pre = "[adding 1]"
      and l = "raising (ValueError ''boom'')" and post = "[adding 10]"
      and s = "ClientSession_ref 0" and x = 7 and w = 0 and ?w1.0 = 1 and ?w2.0 = 1
      and e = "ValueError ''boom''", OF h1 h2 h3 h4, unfolded e list.map, unfolded u]
  show ?thesis using h1 [unfolded u] h2 [unfolded u] h3 [unfolded u] h4 [unfolded u] c
    by blast
qed


text \<open>
  Claim C3. An \<open>append\<close> after \<open>freeze\<close> fails with ConfigurationError. A \<open>send\<close> on a
  signal that is not frozen fails with ConfigurationError, leaves the world as it was
  and calls no listener. A \<open>send\<close> after \<open>freeze\<close> completes without an exception when
  none of the listeners raises on these arguments.
\<close>

theorem Signal_freeze_barrier:
  "Signal_append l (Signal_freeze s) = Inl ConfigurationError \<and>
   (\<not> frozen s \<longrightarrow>
      Signal_send s ow c p w = (Inl ConfigurationError, w) \<and>
      Signal_send (observe_signal k s) ow c p (w, log) = (Inl ConfigurationError, (w, log))) \<and>
   ((\<forall>l \<in> set (listeners s). \<forall>w'. fst (l ow c p w') = Inr ()) \<longrightarrow>
      fst (Signal_send (Signal_freeze s) ow c p w) = Inr ())"
proof -
  have ok: "(\<forall>l \<in> set ls. \<forall>w'. fst (l ow c p w') = Inr ()) \<Longrightarrow>
            fst (run_listeners ls ow c p w) = Inr ()" for ls :: "('a, 'b) listener list" and w
  proof (induction ls arbitrary: w)
    case Nil
    then show ?case by simp
  next
    case (Cons a ls)
    obtain r w1 where aw: "a ow c p w = (r, w1)" by (cases "a ow c p w")
    from Cons.prems have "fst (a ow c p w) = Inr ()" by simp
    with aw have "r = Inr ()" by simp
    with aw Cons.IH [of w1] Cons.prems show ?case by simp
  qed
  show ?thesis
    using ok [of "listeners s" w]
    by (simp add: Signal_append_def Signal_freeze_def Signal_send_def observe_signal_def)
qed


theorem Signal_freeze_barrier_witness:
  "Signal_append doubling (Signal_freeze \<lparr>listeners = [adding 1, doubling :: (nat, nat) listener], frozen = False\<rparr>) =
     Inl ConfigurationError \<and>
   \<not> frozen \<lparr>listeners = [adding 1, doubling :: (nat, nat) listener], frozen = False\<rparr> \<and>
   Signal_send \<lparr>listeners = [adding 1, doubling], frozen = False\<rparr>
     (ClientSession_ref 0) (7::nat) TraceConnectionReuseconnParams 3 = (Inl ConfigurationError, 3) \<and>
   Signal_send (observe_signal On_connection_reuseconn \<lparr>listeners = [adding 1, doubling], frozen = False\<rparr>)
     (ClientSession_ref 0) (7::nat) TraceConnectionReuseconnParams (3, []) =
     (Inl ConfigurationError, (3, [])) \<and>
   (\<forall>w'. fst (adding 1 (ClientSession_ref 0) (7::nat) TraceConnectionReuseconnParams w') = Inr ()) \<and>
   (\<forall>w'. fst (doubling (ClientSession_ref 0) (7::nat) TraceConnectionReuseconnParams w') = Inr ()) \<and>
   fst (Signal_send (Signal_freeze \<lparr>listeners = [adding 1, doubling], frozen = False\<rparr>)
     (ClientSession_ref 0) (7::nat) TraceConnectionReuseconnParams 3) = Inr ()"
proof -
  let ?s = "\<lparr>listeners = [adding 1, doubling :: (nat, nat) listener], frozen = False\<rparr>"
  have a: "\<not> frozen ?s" by simp
  have b: "\<forall>l \<in> set (listeners ?s). \<forall>w'.
      fst (l (ClientSession_ref 0) (7::nat) TraceConnectionReuseconnParams w') = Inr ()"
    by (simp add: adding_def doubling_def)
  note c = Signal_freeze_barrier [of doubling ?s "ClientSession_ref 0" 7 TraceConnectionReuseconnParams 3
      On_connection_reuseconn "[]"]
  from c a b show ?thesis by (simp add: adding_def doubling_def)
qed


lemma seen_perform:
  "seen (perform (Trace_init s (observe_config tc) x) call (w, [])) =
     map (\<lambda>j. (signal_for (method_of call), j, s, x, payload_of call))
       [0..<calls (signal_of (signal_for (method_of call)) tc) s x (payload_of call) w]"
  by (simp add: perform_observed seen_def)

lemma map_const_upt: "map (\<lambda>j. v) [0..<n] = replicate n v"
  by (simp add: map_replicate_const)

lemma observed_payload_send_request_start:
  "map (\<lambda>ev. (method' (ev_payload ev), url (ev_payload ev), headers (ev_payload ev)))
     (seen (send_request_start (Trace_init s (observe_config tc) x) m u hs (w, []))) =
   replicate (calls (on_request_start tc) s x (TraceRequestStartParams m u hs) w) (m, u, hs)"
  using seen_perform [of s tc x "Call_send_request_start m u hs" w]
  by (simp add: ev_payload_def map_const_upt o_def)

lemma observed_payload_send_request_chunk_sent:
  "map (\<lambda>ev. (method' (ev_payload ev), url (ev_payload ev), chunk (ev_payload ev)))
     (seen (send_request_chunk_sent (Trace_init s (observe_config tc) x) m u ch (w, []))) =
   replicate (calls (on_request_chunk_sent tc) s x (TraceRequestChunkSentParams m u ch) w) (m, u, ch)"
  using seen_perform [of s tc x "Call_send_request_chunk_sent m u ch" w]
  by (simp add: ev_payload_def map_const_upt o_def)

lemma observed_payload_send_response_chunk_received:
  "map (\<lambda>ev. (method' (ev_payload ev), url (ev_payload ev), chunk (ev_payload ev)))
     (seen (send_response_chunk_received (Trace_init s (observe_config tc) x) m u ch (w, []))) =
   replicate (calls (on_response_chunk_received tc) s x (TraceResponseChunkReceivedParams m u ch) w) (m, u, ch)"
  using seen_perform [of s tc x "Call_send_response_chunk_received m u ch" w]
  by (simp add: ev_payload_def map_const_upt o_def)

lemma observed_payload_send_request_end:
  "map (\<lambda>ev. (method' (ev_payload ev), url (ev_payload ev), headers (ev_payload ev), response (ev_payload ev)))
     (seen (send_request_end (Trace_init s (observe_config tc) x) m u hs resp (w, []))) =
   replicate (calls (on_request_end tc) s x (TraceRequestEndParams m u hs resp) w) (m, u, hs, resp)"
  using seen_perform [of s tc x "Call_send_request_end m u hs resp" w]
  by (simp add: ev_payload_def map_const_upt o_def)

lemma observed_payload_send_request_exception:
  "map (\<lambda>ev. (method' (ev_payload ev), url (ev_payload ev), headers (ev_payload ev), exception (ev_payload ev)))
     (seen (send_request_exception (Trace_init s (observe_config tc) x) m u hs exc (w, []))) =
   replicate (calls (on_request_exception tc) s x (TraceRequestExceptionParams m u hs exc) w) (m, u, hs, exc)"
  using seen_perform [of s tc x "Call_send_request_exception m u hs exc" w]
  by (simp add: ev_payload_def map_const_upt o_def)

lemma observed_payload_send_request_redirect:
  "map (\<lambda>ev. (method' (ev_payload ev), url (ev_payload ev), headers (ev_payload ev), response (ev_payload ev)))
     (seen (send_request_redirect (Trace_init s (observe_config tc) x) m u hs resp (w, []))) =
   replicate (calls (on_request_redirect tc) s x (TraceRequestRedirectParams m u hs resp) w) (m, u, hs, resp)"
  using seen_perform [of s tc x "Call_send_request_redirect m u hs resp" w]
  by (simp add: ev_payload_def map_const_upt o_def)

lemma observed_payload_send_connection_queued_start:
  "map ev_payload
     (seen (send_connection_queued_start (Trace_init s (observe_config tc) x) (w, []))) =
   replicate (calls (on_connection_queued_start tc) s x TraceConnectionQueuedStartParams w) TraceConnectionQueuedStartParams"
  using seen_perform [of s tc x "Call_send_connection_queued_start" w]
  by (simp add: ev_payload_def map_const_upt o_def)

lemma observed_payload_send_connection_queued_end:
  "map ev_payload
     (seen (send_connection_queued_end (Trace_init s (observe_config tc) x) (w, []))) =
   replicate (calls (on_connection_queued_end tc) s x TraceConnectionQueuedEndParams w) TraceConnectionQueuedEndParams"
  using seen_perform [of s tc x "Call_send_connection_queued_end" w]
  by (simp add: ev_payload_def map_const_upt o_def)

lemma observed_payload_send_connection_create_start:
  "map ev_payload
     (seen (send_connection_create_start (Trace_init s (observe_config tc) x) (w, []))) =
   replicate (calls (on_connection_create_start tc) s x TraceConnectionCreateStartParams w) TraceConnectionCreateStartParams"
  using seen_perform [of s tc x "Call_send_connection_create_start" w]
  by (simp add: ev_payload_def map_const_upt o_def)

lemma observed_payload_send_connection_create_end:
  "map ev_payload
     (seen (send_connection_create_end (Trace_init s (observe_config tc) x) (w, []))) =
   replicate (calls (on_connection_create_end tc) s x TraceConnectionCreateEndParams w) TraceConnectionCreateEndParams"
  using seen_perform [of s tc x "Call_send_connection_create_end" w]
  by (simp add: ev_payload_def map_const_upt o_def)

lemma observed_payload_send_connection_reuseconn:
  "map ev_payload
     (seen (send_connection_reuseconn (Trace_init s (observe_config tc) x) (w, []))) =
   replicate (calls (on_connection_reuseconn tc) s x TraceConnectionReuseconnParams w) TraceConnectionReuseconnParams"
  using seen_perform [of s tc x "Call_send_connection_reuseconn" w]
  by (simp add: ev_payload_def map_const_upt o_def)

lemma observed_payload_send_dns_resolvehost_start:
  "map (\<lambda>ev. host (ev_payload ev))
     (seen (send_dns_resolvehost_start (Trace_init s (observe_config tc) x) hst (w, []))) =
   replicate (calls (on_dns_resolvehost_start tc) s x (TraceDnsResolveHostStartParams hst) w) hst"
  using seen_perform [of s tc x "Call_send_dns_resolvehost_start hst" w]
  by (simp add: ev_payload_def map_const_upt o_def)

lemma observed_payload_send_dns_resolvehost_end:
  "map (\<lambda>ev. host (ev_payload ev))
     (seen (send_dns_resolvehost_end (Trace_init s (observe_config tc) x) hst (w, []))) =
   replicate (calls (on_dns_resolvehost_end tc) s x (TraceDnsResolveHostEndParams hst) w) hst"
  using seen_perform [of s tc x "Call_send_dns_resolvehost_end hst" w]
  by (simp add: ev_payload_def map_const_upt o_def)

lemma observed_payload_send_dns_cache_hit:
  "map (\<lambda>ev. host (ev_payload ev))
     (seen (send_dns_cache_hit (Trace_init s (observe_config tc) x) hst (w, []))) =
   replicate (calls (on_dns_cache_hit tc) s x (TraceDnsCacheHitParams hst) w) hst"
  using seen_perform [of s tc x "Call_send_dns_cache_hit hst" w]
  by (simp add: ev_payload_def map_const_upt o_def)

lemma observed_payload_send_dns_cache_miss:
  "map (\<lambda>ev. host (ev_payload ev))
     (seen (send_dns_cache_miss (Trace_init s (observe_config tc) x) hst (w, []))) =
   replicate (calls (on_dns_cache_miss tc) s x (TraceDnsCacheMissParams hst) w) hst"
  using seen_perform [of s tc x "Call_send_dns_cache_miss hst" w]
  by (simp add: ev_payload_def map_const_upt o_def)

lemma observed_payload_send_request_headers:
  "map (\<lambda>ev. (method' (ev_payload ev), url (ev_payload ev), headers (ev_payload ev)))
     (seen (send_request_headers (Trace_init s (observe_config tc) x) m u hs (w, []))) =
   replicate (calls (on_request_headers_sent tc) s x (TraceRequestHeadersSentParams m u hs) w) (m, u, hs)"
  using seen_perform [of s tc x "Call_send_request_headers m u hs" w]
  by (simp add: ev_payload_def map_const_upt o_def)

lemma calls_pos: "(0 < calls sg ow c p w) = (frozen sg \<and> listeners sg \<noteq> [])"
  by (cases "listeners sg") (auto simp: calls_def split: prod.splits sum.splits)

text \<open>
  Claim C4. For each of the sixteen methods, for every TraceConfig, whatever its
  listeners, and for all arguments: every listener the call reaches receives a payload
  whose fields are the arguments of the call, field by field (the payload itself for
  the five events without arguments), and this for exactly as many listeners as the
  send calls. The last line says when that number is positive: on a frozen signal
  with at least one listener.
\<close>

theorem Trace_payload_fidelity:
  "(map (\<lambda>ev. (method' (ev_payload ev), url (ev_payload ev), headers (ev_payload ev)))
      (seen (send_request_start (Trace_init s (observe_config tc) x) m u hs (w, []))) =
    replicate (calls (on_request_start tc) s x (TraceRequestStartParams m u hs) w) (m, u, hs)) \<and>
   (map (\<lambda>ev. (method' (ev_payload ev), url (ev_payload ev), chunk (ev_payload ev)))
      (seen (send_request_chunk_sent (Trace_init s (observe_config tc) x) m u ch (w, []))) =
    replicate (calls (on_request_chunk_sent tc) s x (TraceRequestChunkSentParams m u ch) w) (m, u, ch)) \<and>
   (map (\<lambda>ev. (method' (ev_payload ev), url (ev_payload ev), chunk (ev_payload ev)))
      (seen (send_response_chunk_received (Trace_init s (observe_config tc) x) m u ch (w, []))) =
    replicate (calls (on_response_chunk_received tc) s x (TraceResponseChunkReceivedParams m u ch) w) (m, u, ch)) \<and>
   (map (\<lambda>ev. (method' (ev_payload ev), url (ev_payload ev), headers (ev_payload ev), response (ev_payload ev)))
      (seen (send_request_end (Trace_init s (observe_config tc) x) m u hs resp (w, []))) =
    replicate (calls (on_request_end tc) s x (TraceRequestEndParams m u hs resp) w) (m, u, hs, resp)) \<and>
   (map (\<lambda>ev. (method' (ev_payload ev), url (ev_payload ev), headers (ev_payload ev), exception (ev_payload ev)))
      (seen (send_request_exception (Trace_init s (observe_config tc) x) m u hs exc (w, []))) =
    replicate (calls (on_request_exception tc) s x (TraceRequestExceptionParams m u hs exc) w) (m, u, hs, exc)) \<and>
   (map (\<lambda>ev. (method' (ev_payload ev), url (ev_payload ev), headers (ev_payload ev), response (ev_payload ev)))
      (seen (send_request_redirect (Trace_init s (observe_config tc) x) m u hs resp (w, []))) =
    replicate (calls (on_request_redirect tc) s x (TraceRequestRedirectParams m u hs resp) w) (m, u, hs, resp)) \<and>
   (map ev_payload
      (seen (send_connection_queued_start (Trace_init s (observe_config tc) x) (w, []))) =
    replicate (calls (on_connection_queued_start tc) s x TraceConnectionQueuedStartParams w) TraceConnectionQueuedStartParams) \<and>
   (map ev_payload
      (seen (send_connection_queued_end (Trace_init s (observe_config tc) x) (w, []))) =
    replicate (calls (on_connection_queued_end tc) s x TraceConnectionQueuedEndParams w) TraceConnectionQueuedEndParams) \<and>
   (map ev_payload
      (seen (send_connection_create_start (Trace_init s (observe_config tc) x) (w, []))) =
    replicate (calls (on_connection_create_start tc) s x TraceConnectionCreateStartParams w) TraceConnectionCreateStartParams) \<and>
   (map ev_payload
      (seen (send_connection_create_end (Trace_init s (observe_config tc) x) (w, []))) =
    replicate (calls (on_connection_create_end tc) s x TraceConnectionCreateEndParams w) TraceConnectionCreateEndParams) \<and>
   (map ev_payload
      (seen (send_connection_reuseconn (Trace_init s (observe_config tc) x) (w, []))) =
    replicate (calls (on_connection_reuseconn tc) s x TraceConnectionReuseconnParams w) TraceConnectionReuseconnParams) \<and>
   (map (\<lambda>ev. host (ev_payload ev))
      (seen (send_dns_resolvehost_start (Trace_init s (observe_config tc) x) hst (w, []))) =
    replicate (calls (on_dns_resolvehost_start tc) s x (TraceDnsResolveHostStartParams hst) w) hst) \<and>
   (map (\<lambda>ev. host (ev_payload ev))
      (seen (send_dns_resolvehost_end (Trace_init s (observe_config tc) x) hst (w, []))) =
    replicate (calls (on_dns_resolvehost_end tc) s x (TraceDnsResolveHostEndParams hst) w) hst) \<and>
   (map (\<lambda>ev. host (ev_payload ev))
      (seen (send_dns_cache_hit (Trace_init s (observe_config tc) x) hst (w, []))) =
    replicate (calls (on_dns_cache_hit tc) s x (TraceDnsCacheHitParams hst) w) hst) \<and>
   (map (\<lambda>ev. host (ev_payload ev))
      (seen (send_dns_cache_miss (Trace_init s (observe_config tc) x) hst (w, []))) =
    replicate (calls (on_dns_cache_miss tc) s x (TraceDnsCacheMissParams hst) w) hst) \<and>
   (map (\<lambda>ev. (method' (ev_payload ev), url (ev_payload ev), headers (ev_payload ev)))
      (seen (send_request_headers (Trace_init s (observe_config tc) x) m u hs (w, []))) =
    replicate (calls (on_request_headers_sent tc) s x (TraceRequestHeadersSentParams m u hs) w) (m, u, hs)) \<and>
   ((0 < calls sg ow c p w) = (frozen sg \<and> listeners sg \<noteq> []))"
  by (intro conjI observed_payload_send_request_start observed_payload_send_request_chunk_sent observed_payload_send_response_chunk_received observed_payload_send_request_end observed_payload_send_request_exception observed_payload_send_request_redirect observed_payload_send_connection_queued_start observed_payload_send_connection_queued_end observed_payload_send_connection_create_start observed_payload_send_connection_create_end observed_payload_send_connection_reuseconn observed_payload_send_dns_resolvehost_start observed_payload_send_dns_resolvehost_end observed_payload_send_dns_cache_hit observed_payload_send_dns_cache_miss observed_payload_send_request_headers calls_pos)

section \<open>Properties of TraceConfig and of the dispatch\<close>

text \<open>
  Claim C5. \<^verbatim>\<open>TraceConfig.freeze\<close> is an ordinary method, not a coroutine: it has no
  suspension point and none of its sixteen steps can raise, so it is a total function
  from the state before the call to the state after it, and the caller sees no state
  in between. The TraceConfig has sixteen signals, and in the state after the call
  every one of them is frozen, whatever the state before; the listeners and the
  factory are as they were.
\<close>

theorem TraceConfig_freeze_all_frozen:
  "length all_signal_names = 16 \<and> distinct all_signal_names \<and>
   set all_signal_names = UNIV \<and>
   (\<forall>k. frozen (signal_of k (TraceConfig_freeze tc))) \<and>
   (\<forall>k. listeners (signal_of k (TraceConfig_freeze tc)) = listeners (signal_of k tc)) \<and>
   self_trace_config_ctx_factory (TraceConfig_freeze tc) = self_trace_config_ctx_factory tc"
proof -
  have a: "frozen (signal_of k (TraceConfig_freeze tc))" for k
    by (cases k) (simp_all add: TraceConfig_freeze_def Let_def on_defs Signal_freeze_def)
  have b: "listeners (signal_of k (TraceConfig_freeze tc)) = listeners (signal_of k tc)" for k
    by (cases k) (simp_all add: TraceConfig_freeze_def Let_def on_defs Signal_freeze_def)
  have c: "self_trace_config_ctx_factory (TraceConfig_freeze tc) = self_trace_config_ctx_factory tc"
    by (simp add: TraceConfig_freeze_def Let_def)
  have d: "length all_signal_names = 16 \<and> distinct all_signal_names"
    by (simp add: all_signal_names_def)
  have e: "k \<in> set all_signal_names" for k
    by (cases k) (simp_all add: all_signal_names_def)
  then have "set all_signal_names = UNIV" by blast
  then show ?thesis using a b c d by blast
qed

lemma perform_all_ctx:
  "ev_ctx ` set (seen (perform_all (Trace_init s (observe_config tc) x) cs (w, log)))
     \<subseteq> ev_ctx ` set log \<union> {x}"
proof (induction cs arbitrary: w log)
  case Nil
  then show ?case by (auto simp: seen_def)
next
  case (Cons c cs)
  let ?T = "Trace_init s (observe_config tc) x"
  obtain r w' where p: "perform (Trace_init s tc x) c w = (r, w')"
    by (cases "perform (Trace_init s tc x) c w")
  define new where "new = map (\<lambda>j. (signal_for (method_of c), j, s, x, payload_of c))
       [0..<calls (signal_of (signal_for (method_of c)) tc) s x (payload_of c) w]"
  have po: "perform ?T c (w, log) = (r, (w', log @ new))"
    using p by (simp add: perform_observed new_def)
  have n: "ev_ctx ` set new \<subseteq> {x}" by (auto simp: new_def ev_ctx_def)
  show ?case
  proof (cases r)
    case (Inl e)
    with po n show ?thesis by (auto simp: seen_def)
  next
    case (Inr u)
    with po have "perform_all ?T (c # cs) (w, log) = perform_all ?T cs (w', log @ new)"
      by simp
    with Cons.IH [of w' "log @ new"] n show ?thesis by auto
  qed
qed

text \<open>
  Claim C6. Every listener reached by any \<^verbatim>\<open>send_*\<close> call of a Trace receives, as its
  context argument, the context the Trace was constructed with: for each single call,
  and for any sequence of calls of one Trace. Two Traces constructed with different
  contexts, on the same TraceConfig, never hand a common context to a listener.
\<close>

theorem Trace_context_identity:
  "map ev_ctx (seen (perform (Trace_init s (observe_config tc) x) call (w, []))) =
     replicate (calls (signal_of (signal_for (method_of call)) tc) s x (payload_of call) w) x \<and>
   set (map ev_ctx (seen (perform_all (Trace_init s (observe_config tc) x) cs (w, [])))) \<subseteq> {x} \<and>
   (x \<noteq> x' \<longrightarrow>
      set (map ev_ctx (seen (perform_all (Trace_init s (observe_config tc) x) cs (w, [])))) \<inter>
      set (map ev_ctx (seen (perform_all (Trace_init s' (observe_config tc) x') cs' (w', [])))) = {})"
proof -
  have a: "map ev_ctx (seen (perform (Trace_init s (observe_config tc) x) call (w, []))) =
     replicate (calls (signal_of (signal_for (method_of call)) tc) s x (payload_of call) w) x"
    by (simp add: seen_perform ev_ctx_def map_const_upt o_def)
  have b: "set (map ev_ctx (seen (perform_all (Trace_init s (observe_config tc) x) cs (w, [])))) \<subseteq> {x}"
    for s x cs w
    using perform_all_ctx [of s tc x cs w "[]"] by simp
  show ?thesis using a b [of s x cs w] b [of s' x' cs' w'] by blast
qed

lemma signal_for_inj: "signal_for a = signal_for b \<Longrightarrow> a = b"
  by (cases a; cases b) simp_all

lemma signal_for_method_for: "signal_for (method_for k) = k"
  by (cases k) simp_all

lemma method_for_signal_for: "method_for (signal_for m) = m"
  by (cases m) simp_all

lemma signal_of_put_signal:
  "signal_of k' (put_signal k sg tc) = (if k' = k then sg else signal_of k' tc)"
  by (cases k; cases k') (simp_all add: on_defs)

text \<open>
  Claim C7. Each \<^verbatim>\<open>send_*\<close> call is one \<open>send\<close> on the signal \<open>signal_for\<close> gives for its
  method, and the listeners it reaches are listeners of that signal only. The map
  \<open>signal_for\<close> from the sixteen methods to the sixteen signals is a bijection with
  inverse \<open>method_for\<close>, and the sixteen names denote sixteen separate signals of the
  TraceConfig: replacing one leaves the other fifteen as they are.
\<close>

theorem Trace_method_signal_bijection:
  "perform (Trace_init s tc x) call w =
     Signal_send (signal_of (signal_for (method_of call)) tc) s x (payload_of call) w \<and>
   map ev_signal (seen (perform (Trace_init s (observe_config tc) x) call (w, []))) =
     replicate (calls (signal_of (signal_for (method_of call)) tc) s x (payload_of call) w)
       (signal_for (method_of call)) \<and>
   bij signal_for \<and>
   signal_for (method_for k) = k \<and>
   method_for (signal_for m) = m \<and>
   signal_of k' (put_signal k sg tc) = (if k' = k then sg else signal_of k' tc)"
proof -
  have "bij signal_for"
    unfolding bij_def inj_def surj_def using signal_for_inj signal_for_method_for by metis
  moreover have "map ev_signal (seen (perform (Trace_init s (observe_config tc) x) call (w, []))) =
     replicate (calls (signal_of (signal_for (method_of call)) tc) s x (payload_of call) w)
       (signal_for (method_of call))"
    by (simp add: seen_perform ev_signal_def map_const_upt o_def)
  ultimately show ?thesis
    using perform_eq [of s tc x call w] signal_of_put_signal [of k' k sg tc]
      signal_for_method_for [of k] method_for_signal_for [of m] by blast
qed


lemma example_run:
  "perform_all (Trace_init s (observe_config example_config) x)
     [Call_send_connection_reuseconn, Call_send_request_end m u hs resp] (0, []) =
   (Inl (ValueError ''boom''),
    (1, [(On_request_end, 0, s, x, TraceRequestEndParams m u hs resp),
         (On_request_end, 1, s, x, TraceRequestEndParams m u hs resp)]))"
proof -
  have q: "on_connection_reuseconn example_config = \<lparr>listeners = [], frozen = True\<rparr>"
    by (simp add: example_config_def TraceConfig_freeze_def TraceConfig_init_def
      on_connection_reuseconn_def Signal_freeze_def Signal_new_def)
  have a: "perform (Trace_init s (observe_config example_config) x)
      Call_send_connection_reuseconn (0, []) = (Inr (), (0, []))"
    by (subst perform_observed)
      (simp add: send_connection_reuseconn_def Trace_init_def q Signal_send_def calls_def)
  have b: "perform (Trace_init s (observe_config example_config) x)
      (Call_send_request_end m u hs resp) (0, []) =
      (Inl (ValueError ''boom''),
       (1, [(On_request_end, 0, s, x, TraceRequestEndParams m u hs resp),
            (On_request_end, 1, s, x, TraceRequestEndParams m u hs resp)]))"
    by (subst perform_observed)
      (simp add: send_request_end_def Trace_init_def example_config_request_end
        Signal_send_def calls_def adding_def raising_def upt_conv_Cons)
  show ?thesis
    by (simp add: a [unfolded perform.simps] b [unfolded perform.simps])
qed

theorem Trace_context_identity_witness:
  "(7::nat) \<noteq> 8 \<and>
   map ev_ctx (seen (perform_all (Trace_init (ClientSession_ref 0) (observe_config example_config) 7)
     [Call_send_connection_reuseconn,
      Call_send_request_end ''GET'' ''http://example.com/'' [] (ClientResponse_ref 1)] (0, []))) = [7, 7] \<and>
   map ev_ctx (seen (perform_all (Trace_init (ClientSession_ref 0) (observe_config example_config) 8)
     [Call_send_connection_reuseconn,
      Call_send_request_end ''GET'' ''http://example.com/'' [] (ClientResponse_ref 1)] (0, []))) = [8, 8] \<and>
   set (map ev_ctx (seen (perform_all (Trace_init (ClientSession_ref 0) (observe_config example_config) 7)
     [Call_send_connection_reuseconn,
      Call_send_request_end ''GET'' ''http://example.com/'' [] (ClientResponse_ref 1)] (0, [])))) \<inter>
   set (map ev_ctx (seen (perform_all (Trace_init (ClientSession_ref 0) (observe_config example_config) 8)
     [Call_send_connection_reuseconn,
      Call_send_request_end ''GET'' ''http://example.com/'' [] (ClientResponse_ref 1)] (0, [])))) = {}"
proof -
  let ?cs = "[Call_send_connection_reuseconn,
      Call_send_request_end ''GET'' ''http://example.com/'' [] (ClientResponse_ref 1)]"
  have n: "(7::nat) \<noteq> 8" by simp
  note c = Trace_context_identity [where x = "7::nat" and x' = 8 and tc = example_config
      and s = "ClientSession_ref 0" and s' = "ClientSession_ref 0" and cs = ?cs and cs' = ?cs
      and w = 0 and w' = 0 and call = Call_send_connection_reuseconn]
  from c n have d: "set (map ev_ctx (seen (perform_all (Trace_init (ClientSession_ref 0) (observe_config example_config) 7) ?cs (0, [])))) \<inter>
   set (map ev_ctx (seen (perform_all (Trace_init (ClientSession_ref 0) (observe_config example_config) 8) ?cs (0, [])))) = {}"
    by blast
  have e: "map ev_ctx (seen (perform_all (Trace_init (ClientSession_ref 0) (observe_config example_config) x) ?cs (0, []))) = [x, x]" for x :: nat
    by (simp only: example_run) (simp add: seen_def ev_ctx_def)
  show ?thesis using n d e [of 7] e [of 8] by blast
qed

lemma SimpleNamespace_fresh: "constructs_fresh SimpleNamespace"
  by (simp add: constructs_fresh_def SimpleNamespace_def)

lemma trace_config_ctx_eq:
  "trace_config_ctx tc seed w =
     self_trace_config_ctx_factory tc [(''trace_request_ctx'', seed_value seed)] w"
  by (simp add: trace_config_ctx_def seed_value_def)

text \<open>
  Claim C8. \<^verbatim>\<open>trace_config_ctx\<close> returns what the stored factory returns when called with
  the seed, and does nothing else. When the factory constructs a fresh object at each
  call, two calls in a row return two different instances; the second call leaves the
  first instance as it was, and so does a later assignment to an attribute of the
  second instance.
\<close>

theorem trace_config_ctx_invokes_factory:
  "trace_config_ctx tcg seed wg =
     self_trace_config_ctx_factory tcg [(''trace_request_ctx'', seed_value seed)] wg \<and>
   (constructs_fresh (self_trace_config_ctx_factory tc) \<longrightarrow>
      fst (trace_config_ctx tc seed1 h) = Inr (length h) \<and>
      fst (trace_config_ctx tc seed2 (snd (trace_config_ctx tc seed1 h))) = Inr (Suc (length h)) \<and>
      fst (trace_config_ctx tc seed1 h) \<noteq>
        fst (trace_config_ctx tc seed2 (snd (trace_config_ctx tc seed1 h))) \<and>
      take (length h) (snd (trace_config_ctx tc seed1 h)) = h \<and>
      (\<forall>n. getattr (snd (trace_config_ctx tc seed2 (snd (trace_config_ctx tc seed1 h)))) (length h) n =
           getattr (snd (trace_config_ctx tc seed1 h)) (length h) n) \<and>
      (\<forall>n n' v. getattr (setattr (snd (trace_config_ctx tc seed2 (snd (trace_config_ctx tc seed1 h))))
                   (Suc (length h)) n' v) (length h) n =
           getattr (snd (trace_config_ctx tc seed1 h)) (length h) n))"
proof -
  have g: "trace_config_ctx tcg seed wg =
     self_trace_config_ctx_factory tcg [(''trace_request_ctx'', seed_value seed)] wg"
    by (rule trace_config_ctx_eq)
  have f: "fst (trace_config_ctx tc seed1 h) = Inr (length h) \<and>
      fst (trace_config_ctx tc seed2 (snd (trace_config_ctx tc seed1 h))) = Inr (Suc (length h)) \<and>
      fst (trace_config_ctx tc seed1 h) \<noteq>
        fst (trace_config_ctx tc seed2 (snd (trace_config_ctx tc seed1 h))) \<and>
      take (length h) (snd (trace_config_ctx tc seed1 h)) = h \<and>
      (\<forall>n. getattr (snd (trace_config_ctx tc seed2 (snd (trace_config_ctx tc seed1 h)))) (length h) n =
           getattr (snd (trace_config_ctx tc seed1 h)) (length h) n) \<and>
      (\<forall>n n' v. getattr (setattr (snd (trace_config_ctx tc seed2 (snd (trace_config_ctx tc seed1 h))))
                   (Suc (length h)) n' v) (length h) n =
           getattr (snd (trace_config_ctx tc seed1 h)) (length h) n)"
    if fr: "constructs_fresh (self_trace_config_ctx_factory tc)"
  proof -
    let ?f = "self_trace_config_ctx_factory tc"
    from fr obtain o1 where 1: "?f [(''trace_request_ctx'', seed_value seed1)] h = (Inr (length h), h @ [o1])"
      unfolding constructs_fresh_def by blast
    from fr obtain o2 where 2: "?f [(''trace_request_ctx'', seed_value seed2)] (h @ [o1]) =
        (Inr (length (h @ [o1])), (h @ [o1]) @ [o2])"
      unfolding constructs_fresh_def by blast
    show ?thesis
      by (simp add: trace_config_ctx_eq 1 2 getattr_def setattr_def nth_append)
  qed
  show ?thesis using g f by blast
qed

theorem trace_config_ctx_invokes_factory_witness:
  "constructs_fresh (self_trace_config_ctx_factory TraceConfig_init_default) \<and>
   trace_config_ctx TraceConfig_init_default (Some (PyStr ''a'')) [] =
     (Inr 0, [[(''trace_request_ctx'', PyStr ''a'')]]) \<and>
   trace_config_ctx TraceConfig_init_default (Some (PyStr ''b'')) [[(''trace_request_ctx'', PyStr ''a'')]] =
     (Inr 1, [[(''trace_request_ctx'', PyStr ''a'')], [(''trace_request_ctx'', PyStr ''b'')]]) \<and>
   fst (trace_config_ctx TraceConfig_init_default (Some (PyStr ''a'')) []) \<noteq>
     fst (trace_config_ctx TraceConfig_init_default (Some (PyStr ''b''))
       (snd (trace_config_ctx TraceConfig_init_default (Some (PyStr ''a'')) [])))"
proof -
  have a: "constructs_fresh (self_trace_config_ctx_factory TraceConfig_init_default)"
    by (simp add: TraceConfig_init_default_def TraceConfig_init_def SimpleNamespace_fresh)
  have b: "trace_config_ctx TraceConfig_init_default seed h =
      (Inr (length h), h @ [[(''trace_request_ctx'', seed_value seed)]])" for seed h
    by (simp add: trace_config_ctx_eq TraceConfig_init_default_def TraceConfig_init_def
        SimpleNamespace_def)
  note c = trace_config_ctx_invokes_factory [where tc = TraceConfig_init_default and tcg = TraceConfig_init_default
      and seed = None and wg = "[]"
      and ?seed1.0 = "Some (PyStr ''a'')" and ?seed2.0 = "Some (PyStr ''b'')" and h = "[]"]
  from c a have "fst (trace_config_ctx TraceConfig_init_default (Some (PyStr ''a'')) []) \<noteq>
     fst (trace_config_ctx TraceConfig_init_default (Some (PyStr ''b''))
       (snd (trace_config_ctx TraceConfig_init_default (Some (PyStr ''a'')) [])))"
    by blast
  then show ?thesis using a by (simp add: b seed_value_def)
qed

text \<open>
  Claim C9 says that the context of a TraceConfig built without a factory has no field.
  It has one: the default factory is called with the keyword \<^verbatim>\<open>trace_request_ctx\<close>, and
  SimpleNamespace turns its keyword arguments into attributes.
\<close>

theorem default_context_not_empty:
  "trace_config_ctx TraceConfig_init_default None [] = (Inr 0, [[(''trace_request_ctx'', PyNone)]]) \<and>
   snd (trace_config_ctx TraceConfig_init_default None []) ! 0 \<noteq> []"
  by (simp add: trace_config_ctx_def TraceConfig_init_default_def TraceConfig_init_def
        SimpleNamespace_def)

text \<open>
  Claim C9, amended. The default factory is SimpleNamespace, and the context returned by
  \<^verbatim>\<open>trace_config_ctx\<close> is a new namespace with exactly one field, \<^verbatim>\<open>trace_request_ctx\<close>,
  holding the seed (None when the seed is omitted).
\<close>

theorem default_context_single_field:
  "self_trace_config_ctx_factory TraceConfig_init_default = SimpleNamespace \<and>
   trace_config_ctx TraceConfig_init_default seed h =
     (Inr (length h), h @ [[(''trace_request_ctx'', seed_value seed)]]) \<and>
   map fst (snd (trace_config_ctx TraceConfig_init_default seed h) ! length h) =
     [''trace_request_ctx''] \<and>
   seed_value None = PyNone"
  by (simp add: trace_config_ctx_eq TraceConfig_init_default_def TraceConfig_init_def
        SimpleNamespace_def seed_value_def)

text \<open>
  Claim C10. The factory is called with exactly one keyword argument, named
  \<^verbatim>\<open>trace_request_ctx\<close>, whose value is the seed, or None when the seed is omitted: this
  is what a factory that writes down its keyword arguments records. A factory with
  named parameters completes the call when \<^verbatim>\<open>trace_request_ctx\<close> is one of them and
  raises TypeError otherwise. With the default factory the returned namespace carries
  the attribute \<^verbatim>\<open>trace_request_ctx\<close> equal to the seed.
\<close>

theorem trace_config_ctx_keyword:
  "trace_config_ctx tc seed w =
     self_trace_config_ctx_factory tc [(''trace_request_ctx'', seed_value seed)] w \<and>
   seed_value None = PyNone \<and> seed_value (Some v) = v \<and>
   trace_config_ctx (TraceConfig_init spy_factory) seed kws =
     (Inr (), kws @ [[(''trace_request_ctx'', seed_value seed)]]) \<and>
   trace_config_ctx (TraceConfig_init (with_parameters names body)) seed w =
     (if ''trace_request_ctx'' \<in> set names
      then body [(''trace_request_ctx'', seed_value seed)] w
      else (Inl (TypeError ''unexpected keyword argument''), w)) \<and>
   fst (trace_config_ctx TraceConfig_init_default seed h) = Inr (length h) \<and>
   getattr (snd (trace_config_ctx TraceConfig_init_default seed h)) (length h)
     ''trace_request_ctx'' = Some (seed_value seed)"
  by (simp add: trace_config_ctx_eq TraceConfig_init_default_def TraceConfig_init_def
        SimpleNamespace_def seed_value_def spy_factory_def with_parameters_def getattr_def)

end
